theory Spec2Isabelle
  imports Complex_Main "HOL-Library.Sublist"
begin

section \<open>The transcription pipeline of \<^verbatim>\<open>backend/vosk_utils.py\<close>\<close>

text \<open>
  The module keeps a process-wide cache of loaded Vosk models, converts an uploaded
  audio file to a temporary WAV file, feeds that file to a Kaldi recognizer in chunks
  of 4000 frames, joins the recognised fragments and tidies the text.

  The Vosk engine, the pydub decoder, the operating system and Python's Unicode tables
  are not part of the repository. Their operations are fields of the record \<open>env\<close>;
  each returns \<open>Inl msg\<close> where the Python call raises an exception whose \<open>str\<close> is
  \<open>msg\<close>. What the module itself mutates (the files on disk and the model cache) is the
  record \<open>state\<close>, passed in and returned.

  Recognised text is a list of Unicode code points (\<open>ustring\<close>), since the code looks
  at its characters. Paths, language codes, dictionary keys and messages, which the code
  only compares and concatenates, are \<open>string\<close>.
\<close>

subsection \<open>Values, files and the outside world\<close>

type_synonym path = string

type_synonym ustring = "nat list"

text \<open>The code points of a literal.\<close>

definition ustr :: "string \<Rightarrow> ustring" where
  "ustr s = map of_char s"

text \<open>One frame of a WAV file is opaque here: the code only asks whether a read is empty.\<close>

type_synonym frame = nat

datatype entry = Dir | File "frame list option"
  \<comment> \<open>\<open>File (Some fs)\<close> is a WAV file holding the frames \<open>fs\<close>;
      \<open>File None\<close> is a file that \<open>wave.open\<close> rejects\<close>

datatype pyval = VBool bool | VStr string | VText ustring | VFloat real
  \<comment> \<open>\<open>VStr\<close> and \<open>VText\<close> are both Python's \<open>str\<close>: a message or language code, and
      recognised text\<close>

type_synonym pydict = "(string \<times> pyval) list"

type_synonym exn = string

text \<open>
  The case mappings of the Python runtime, named after the CPython functions behind
  \<open>str.capitalize\<close>: \<open>ToTitleFull c\<close> is the title-case form of the code point \<open>c\<close>,
  and \<open>lower_ucs4 s i\<close> is the lower-case form of the code point at index \<open>i\<close> of \<open>s\<close>
  (the string matters for the Greek final sigma). Either may be several code points.
  The model consults them above the ASCII range only; see \<open>totitle\<close> and \<open>tolower\<close>.
\<close>

record unicode_tables =
  ToTitleFull :: "nat \<Rightarrow> ustring"
  lower_ucs4 :: "ustring \<Rightarrow> nat \<Rightarrow> ustring"

record ('m, 'r, 'a) env =
  VOSK_AVAILABLE :: bool
  PYDUB_AVAILABLE :: bool
  BASE_DIR :: path
  Model :: "(path \<rightharpoonup> entry) \<Rightarrow> path \<Rightarrow> exn + 'm"
  KaldiRecognizer :: "'m \<Rightarrow> nat \<Rightarrow> exn + 'r"
  AcceptWaveform :: "'r \<Rightarrow> frame list \<Rightarrow> exn + (bool \<times> 'r)"
  Result :: "'r \<Rightarrow> exn + ((string \<rightharpoonup> ustring) \<times> 'r)"
  FinalResult :: "'r \<Rightarrow> exn + ((string \<rightharpoonup> ustring) \<times> 'r)"
  from_file :: "(path \<rightharpoonup> entry) \<Rightarrow> path \<Rightarrow> exn + 'a"
  NamedTemporaryFile :: "(path \<rightharpoonup> entry) \<Rightarrow> exn + path"
  export :: "'a \<Rightarrow> exn + frame list"
  unlink_error :: "path \<Rightarrow> exn option"
  tables :: unicode_tables

text \<open>
  \<open>Result\<close> and \<open>FinalResult\<close> stand for \<open>json.loads(recognizer.Result())\<close> and
  \<open>json.loads(recognizer.FinalResult())\<close>: the parsed object, as a dictionary of its
  string entries, and the recognizer after the call. \<open>from_file\<close> stands for
  \<open>AudioSegment.from_file(p).set_frame_rate(16000).set_channels(1)\<close>, \<open>export\<close> for the
  frames that \<open>audio.export(wav_path, format="wav")\<close> writes, and \<open>unlink_error p\<close> is the
  exception of \<open>os.unlink(p)\<close>, if it raises one.
\<close>

record 'm state =
  fs :: "path \<rightharpoonup> entry"
  model_cache :: "string \<rightharpoonup> 'm"

subsection \<open>The model registry\<close>

definition MODEL_PATHS :: "('m, 'r, 'a) env \<Rightarrow> string \<rightharpoonup> path" where
  "MODEL_PATHS env =
     [''en'' \<mapsto> BASE_DIR env @ ''/models/vosk-model-small-en-us-0.15'',
      ''ru'' \<mapsto> BASE_DIR env @ ''/models/vosk-model-small-ru-0.22'',
      ''kz'' \<mapsto> BASE_DIR env @ ''/models/vosk-model-small-kz-0.15'']"

definition get_model ::
  "('m, 'r, 'a) env \<Rightarrow> 'm state \<Rightarrow> string \<Rightarrow> 'm option \<times> 'm state" where
  "get_model env st lang =
     (if \<not> VOSK_AVAILABLE env then (None, st)
      else case model_cache st lang of
        Some m \<Rightarrow> (Some m, st)
      | None \<Rightarrow>
          (case MODEL_PATHS env lang of
             None \<Rightarrow> (None, st)
           | Some model_path \<Rightarrow>
               if model_path \<notin> dom (fs st) then (None, st)
               else (case Model env (fs st) model_path of
                       Inl e \<Rightarrow> (None, st)
                     | Inr m \<Rightarrow> (Some m, st\<lparr>model_cache := (model_cache st)(lang \<mapsto> m)\<rparr>))))"

definition get_recognizer ::
  "('m, 'r, 'a) env \<Rightarrow> 'm state \<Rightarrow> string \<Rightarrow> nat \<Rightarrow> 'r option \<times> 'm state" where
  "get_recognizer env st lang sample_rate =
     (case get_model env st lang of
        (None, st') \<Rightarrow> (None, st')
      | (Some m, st') \<Rightarrow>
          (case KaldiRecognizer env m sample_rate of
             Inl e \<Rightarrow> (None, st')
           | Inr r \<Rightarrow> (Some r, st')))"

subsection \<open>The audio normalizer\<close>

text \<open>
  \<open>NamedTemporaryFile(suffix=".wav", delete=False)\<close> creates the file before \<open>export\<close>
  writes to it, and leaving the \<open>with\<close> block only closes it: when \<open>export\<close> raises,
  the file stays.
\<close>

definition convert_audio_to_wav ::
  "('m, 'r, 'a) env \<Rightarrow> 'm state \<Rightarrow> path \<Rightarrow> path option \<times> 'm state" where
  "convert_audio_to_wav env st file_path =
     (if \<not> PYDUB_AVAILABLE env then (None, st)
      else case from_file env (fs st) file_path of
        Inl e \<Rightarrow> (None, st)
      | Inr audio \<Rightarrow>
          (case NamedTemporaryFile env (fs st) of
             Inl e \<Rightarrow> (None, st)
           | Inr wav_path \<Rightarrow>
               (let st1 = st\<lparr>fs := (fs st)(wav_path \<mapsto> File None)\<rparr>
                in case export env audio of
                     Inl e \<Rightarrow> (None, st1)
                   | Inr frames \<Rightarrow>
                       (Some wav_path, st1\<lparr>fs := (fs st1)(wav_path \<mapsto> File (Some frames))\<rparr>))))"

subsection \<open>Python's string operations\<close>

text \<open>
  The code points for which \<open>str.isspace\<close> holds, which are the ones \<open>str.strip()\<close>
  removes: the ASCII controls 9 to 13 and 28 to 31, the space, U+0085, U+00A0, U+1680,
  U+2000 to U+200A, U+2028, U+2029, U+202F, U+205F and U+3000.
\<close>

definition whitespace :: "nat list" where
  "whitespace =
     [0x09, 0x0A, 0x0B, 0x0C, 0x0D, 0x1C, 0x1D, 0x1E, 0x1F, 0x20, 0x85, 0xA0, 0x1680,
      0x2000, 0x2001, 0x2002, 0x2003, 0x2004, 0x2005, 0x2006, 0x2007, 0x2008, 0x2009,
      0x200A, 0x2028, 0x2029, 0x202F, 0x205F, 0x3000]"

definition isspace :: "nat \<Rightarrow> bool" where
  "isspace c = (c \<in> set whitespace)"

definition strip :: "ustring \<Rightarrow> ustring" where
  "strip s = rev (dropWhile isspace (rev (dropWhile isspace s)))"

text \<open>
  Case mapping. On the ASCII range Python maps \<open>a\<close> to \<open>z\<close> and \<open>A\<close> to \<open>Z\<close> onto each
  other and leaves every other code point alone; above it the runtime's tables decide.
\<close>

definition totitle :: "unicode_tables \<Rightarrow> nat \<Rightarrow> ustring" where
  "totitle db c =
     (if c < 128 then [if 97 \<le> c \<and> c \<le> 122 then c - 32 else c] else ToTitleFull db c)"

definition tolower :: "unicode_tables \<Rightarrow> ustring \<Rightarrow> nat \<Rightarrow> nat \<Rightarrow> ustring" where
  "tolower db s i c =
     (if c < 128 then [if 65 \<le> c \<and> c \<le> 90 then c + 32 else c] else lower_ucs4 db s i)"

text \<open>\<open>lower_from db s i cs\<close> lower-cases \<open>cs\<close>, the part of \<open>s\<close> that starts at index \<open>i\<close>.\<close>

fun lower_from :: "unicode_tables \<Rightarrow> ustring \<Rightarrow> nat \<Rightarrow> ustring \<Rightarrow> ustring" where
  "lower_from db s i [] = []"
| "lower_from db s i (c # cs) = tolower db s i c @ lower_from db s (Suc i) cs"

text \<open>
  \<open>str.capitalize\<close>: the first character in title case, every other one in lower case.
\<close>

fun capitalize :: "unicode_tables \<Rightarrow> ustring \<Rightarrow> ustring" where
  "capitalize db [] = []"
| "capitalize db (c # cs) = totitle db c @ lower_from db (c # cs) 1 cs"

text \<open>
  \<open>s.split(sep)\<close> for a separator that is not empty: the pieces between the
  occurrences of \<open>sep\<close>, found from the left without overlap.
\<close>

function split :: "'a list \<Rightarrow> 'a list \<Rightarrow> 'a list list" where
  "split sep [] = [[]]"
| "split sep (c # cs) =
     (if sep \<noteq> [] \<and> prefix sep (c # cs)
      then [] # split sep (drop (length sep) (c # cs))
      else (case split sep cs of
              [] \<Rightarrow> [[c]]
            | seg # segs \<Rightarrow> (c # seg) # segs))"
  by pat_completeness auto
termination
  by (relation "measure (\<lambda>(sep, s). length s)") (auto simp: neq_Nil_conv)

fun join :: "'a list \<Rightarrow> 'a list list \<Rightarrow> 'a list" where
  "join sep [] = []"
| "join sep [x] = x"
| "join sep (x # y # ys) = x @ sep @ join sep (y # ys)"

definition endswith :: "'a list \<Rightarrow> 'a list \<Rightarrow> bool" where
  "endswith s suf = (length suf \<le> length s \<and> drop (length s - length suf) s = suf)"

subsection \<open>Joining and tidying the fragments\<close>

text \<open>Lines 177 to 185 of \<open>transcribe_audio\<close>, applied to the joined, stripped text.\<close>

definition postProcess :: "unicode_tables \<Rightarrow> ustring \<Rightarrow> ustring" where
  "postProcess db final_text =
     (if final_text \<noteq> [] then
        (let sentences = split (ustr ''. '') final_text;
             sentences = map (capitalize db) sentences;
             final_text = join (ustr ''. '') sentences
         in if \<not> endswith final_text (ustr ''.'') then final_text @ ustr ''.'' else final_text)
      else final_text)"

subsection \<open>The recognition loop\<close>

definition get_text :: "(string \<rightharpoonup> ustring) \<Rightarrow> ustring" where
  "get_text result = (case result ''text'' of Some t \<Rightarrow> t | None \<Rightarrow> [])"

text \<open>One pass of the loop body after a non-empty read (lines 150 to 153).\<close>

definition feed_step ::
  "('m, 'r, 'a) env \<Rightarrow> 'r \<Rightarrow> frame list \<Rightarrow> ustring list \<Rightarrow> exn + ('r \<times> ustring list)" where
  "feed_step env recognizer data result_text =
     (case AcceptWaveform env recognizer data of
        Inl e \<Rightarrow> Inl e
      | Inr (accepted, r1) \<Rightarrow>
          if accepted then
            (case Result env r1 of
               Inl e \<Rightarrow> Inl e
             | Inr (result, r2) \<Rightarrow>
                 if strip (get_text result) \<noteq> []
                 then Inr (r2, result_text @ [get_text result])
                 else Inr (r2, result_text))
          else Inr (r1, result_text))"

text \<open>
  The \<open>while True\<close> loop: \<open>wf.readframes(4000)\<close> takes the next frames of the file \<open>wav\<close>,
  and an empty read ends the loop.
\<close>

function feed_loop ::
  "('m, 'r, 'a) env \<Rightarrow> 'r \<Rightarrow> frame list \<Rightarrow> ustring list \<Rightarrow> exn + ('r \<times> ustring list)" where
  "feed_loop env recognizer wav result_text =
     (let data = take 4000 wav in
      if length data = 0 then Inr (recognizer, result_text)
      else (case feed_step env recognizer data result_text of
              Inl e \<Rightarrow> Inl e
            | Inr (r', result_text') \<Rightarrow> feed_loop env r' (drop 4000 wav) result_text'))"
  by pat_completeness auto
termination
  by (relation "measure (\<lambda>(env, r, wav, acc). length wav)") auto

declare feed_loop.simps [simp del]

text \<open>The final result (lines 156 to 158).\<close>

definition finalize ::
  "('m, 'r, 'a) env \<Rightarrow> 'r \<Rightarrow> ustring list \<Rightarrow> exn + ustring list" where
  "finalize env recognizer result_text =
     (case FinalResult env recognizer of
        Inl e \<Rightarrow> Inl e
      | Inr (final_result, r') \<Rightarrow>
          if strip (get_text final_result) \<noteq> []
          then Inr (result_text @ [get_text final_result])
          else Inr result_text)"

text \<open>
  The body of the inner \<open>try\<close> (lines 142 to 158), starting from \<open>result_text = []\<close>.
  \<open>wave.open\<close> raises unless the path holds a WAV file; the text of that exception is
  not modelled, a fixed message stands for it.
\<close>

definition process_audio ::
  "('m, 'r, 'a) env \<Rightarrow> (path \<rightharpoonup> entry) \<Rightarrow> path \<Rightarrow> 'r \<Rightarrow> exn + ustring list" where
  "process_audio env files wav_path recognizer =
     (case files wav_path of
        Some (File (Some wav)) \<Rightarrow>
          (case feed_loop env recognizer wav [] of
             Inl e \<Rightarrow> Inl e
           | Inr (r', result_text) \<Rightarrow> finalize env r' result_text)
      | _ \<Rightarrow> Inl ''wave.open failed'')"

text \<open>The \<open>finally\<close> block (lines 168 to 171): the exception it raises, if any, and the disk after it.\<close>

definition cleanup ::
  "('m, 'r, 'a) env \<Rightarrow> 'm state \<Rightarrow> path \<Rightarrow> exn option \<times> 'm state" where
  "cleanup env st wav_path =
     (if wav_path \<in> dom (fs st) then
        (case unlink_error env wav_path of
           Some e \<Rightarrow> (Some e, st)
         | None \<Rightarrow> (None, st\<lparr>fs := (fs st)(wav_path := None)\<rparr>))
      else (None, st))"

subsection \<open>The orchestrator\<close>

definition lang_map :: "string \<rightharpoonup> string" where
  "lang_map = [''en'' \<mapsto> ''en'', ''ru'' \<mapsto> ''ru'', ''kz'' \<mapsto> ''kz'', ''auto'' \<mapsto> ''en'']"

definition vosk_lang :: "string \<Rightarrow> string" where
  "vosk_lang language = (case lang_map language of Some l \<Rightarrow> l | None \<Rightarrow> ''en'')"

definition failure :: "string \<Rightarrow> pydict" where
  "failure msg = [(''success'', VBool False), (''error'', VStr msg), (''text'', VText [])]"

definition success :: "ustring \<Rightarrow> string \<Rightarrow> pydict" where
  "success final_text lang =
     [(''success'', VBool True), (''text'', VText final_text),
      (''language'', VStr lang), (''confidence'', VFloat 0.8)]"

text \<open>
  An exception of the inner \<open>try\<close> is turned into a result by the inner handler; the
  \<open>finally\<close> block runs in either case, and an exception it raises replaces that
  result and reaches the outer handler.
\<close>

definition transcribe_audio ::
  "('m, 'r, 'a) env \<Rightarrow> 'm state \<Rightarrow> path \<Rightarrow> string \<Rightarrow> pydict \<times> 'm state" where
  "transcribe_audio env st file_path language =
     (if \<not> VOSK_AVAILABLE env
      then (failure ''Vosk speech recognition is not available'', st)
      else
        (case convert_audio_to_wav env st file_path of
           (None, st1) \<Rightarrow> (failure ''Failed to convert audio to WAV format'', st1)
         | (Some wav_path, st1) \<Rightarrow>
             if wav_path = [] then (failure ''Failed to convert audio to WAV format'', st1)
             else
               (case get_recognizer env st1 (vosk_lang language) 16000 of
                  (None, st2) \<Rightarrow>
                    (failure (''Failed to load speech recognition model for '' @ vosk_lang language),
                     st2)
                | (Some recognizer, st2) \<Rightarrow>
                    (let body = process_audio env (fs st2) wav_path recognizer;
                         (raised, st3) = cleanup env st2 wav_path
                     in case raised of
                          Some e \<Rightarrow> (failure (''Transcription failed: '' @ e), st3)
                        | None \<Rightarrow>
                            (case body of
                               Inl e \<Rightarrow> (failure (''Audio processing failed: '' @ e), st3)
                             | Inr result_text \<Rightarrow>
                                 (success (postProcess (tables env) (strip (join (ustr '' '') result_text)))
                                    (vosk_lang language), st3))))))"

subsection \<open>Callers of the registry that overlap\<close>

text \<open>
  \<open>get_model\<close> takes no lock. A second caller can run between a caller's test of the
  cache (line 46) and its store (line 57). To follow callers that overlap, the call is
  cut there into two steps, each of them run without interruption: \<open>cache_test\<close> is
  lines 42 to 52 and ends the call or goes on to load, \<open>load_store\<close> is lines 54 to 61.
  The registry counts the calls of \<open>Model(...)\<close>, and a loaded model carries the ordinal
  of the load that made it, since every call of the constructor makes a new object.
  Models that were cached before carry the ordinal 0.
\<close>

datatype 'm call = Start | Loading path | Returned "('m \<times> nat) option"

record 'm registry =
  disk :: "path \<rightharpoonup> entry"
  cache :: "string \<rightharpoonup> 'm \<times> nat"
  loads :: nat
  calls :: "'m call list"

definition cache_test :: "('m, 'r, 'a) env \<Rightarrow> 'm registry \<Rightarrow> string \<Rightarrow> 'm call" where
  "cache_test env reg lang =
     (if \<not> VOSK_AVAILABLE env then Returned None
      else case cache reg lang of
        Some h \<Rightarrow> Returned (Some h)
      | None \<Rightarrow>
          (case MODEL_PATHS env lang of
             None \<Rightarrow> Returned None
           | Some model_path \<Rightarrow>
               if model_path \<notin> dom (disk reg) then Returned None else Loading model_path))"

definition load_store ::
  "('m, 'r, 'a) env \<Rightarrow> 'm registry \<Rightarrow> string \<Rightarrow> path \<Rightarrow> 'm call \<times> 'm registry" where
  "load_store env reg lang model_path =
     (let reg1 = reg\<lparr>loads := Suc (loads reg)\<rparr>
      in case Model env (disk reg) model_path of
           Inl e \<Rightarrow> (Returned None, reg1)
         | Inr m \<Rightarrow>
             (Returned (Some (m, loads reg1)),
              reg1\<lparr>cache := (cache reg1)(lang \<mapsto> (m, loads reg1))\<rparr>))"

text \<open>Caller \<open>i\<close> takes its next step; a caller that has returned takes none.\<close>

definition step :: "('m, 'r, 'a) env \<Rightarrow> string \<Rightarrow> 'm registry \<Rightarrow> nat \<Rightarrow> 'm registry" where
  "step env lang reg i =
     (if i < length (calls reg) then
        (case calls reg ! i of
           Start \<Rightarrow> reg\<lparr>calls := (calls reg)[i := cache_test env reg lang]\<rparr>
         | Loading model_path \<Rightarrow>
             (case load_store env reg lang model_path of
                (c, reg') \<Rightarrow> reg'\<lparr>calls := (calls reg')[i := c]\<rparr>)
         | Returned r \<Rightarrow> reg)
      else reg)"

text \<open>A schedule names the caller of each step in turn.\<close>

definition run ::
  "('m, 'r, 'a) env \<Rightarrow> string \<Rightarrow> nat list \<Rightarrow> 'm registry \<Rightarrow> 'm registry" where
  "run env lang schedule reg = foldl (step env lang) reg schedule"

text \<open>\<open>n\<close> callers arrive at a registry in the state \<open>st\<close>.\<close>

definition enter :: "'m state \<Rightarrow> nat \<Rightarrow> 'm registry" where
  "enter st n =
     \<lparr>disk = fs st,
      cache = (\<lambda>lang. map_option (\<lambda>m. (m, 0)) (model_cache st lang)),
      loads = 0,
      calls = replicate n Start\<rparr>"



subsection \<open>The post-processor as the specification words it\<close>



subsection \<open>A concrete deployment\<close>

text \<open>
  Python 3's case mappings on the Cyrillic block, U+0400 to U+04FF, which holds the
  Russian and the Kazakh alphabet. Outside the block these tables leave a code point
  as it is; the texts of the deployment have no such code point above 127.
\<close>

definition cyrillic_title :: "nat \<Rightarrow> nat" where
  "cyrillic_title c =
     (if 0x430 \<le> c \<and> c \<le> 0x44F then c - 32
      else if 0x450 \<le> c \<and> c \<le> 0x45F then c - 80
      else if (0x460 \<le> c \<and> c \<le> 0x481 \<or> 0x48A \<le> c \<and> c \<le> 0x4BF \<or> 0x4D0 \<le> c \<and> c \<le> 0x4FF)
              \<and> odd c then c - 1
      else if 0x4C1 \<le> c \<and> c \<le> 0x4CE \<and> even c then c - 1
      else if c = 0x4CF then 0x4C0
      else c)"

definition cyrillic_lower :: "nat \<Rightarrow> nat" where
  "cyrillic_lower c =
     (if 0x410 \<le> c \<and> c \<le> 0x42F then c + 32
      else if 0x400 \<le> c \<and> c \<le> 0x40F then c + 80
      else if (0x460 \<le> c \<and> c \<le> 0x481 \<or> 0x48A \<le> c \<and> c \<le> 0x4BF \<or> 0x4D0 \<le> c \<and> c \<le> 0x4FF)
              \<and> even c then c + 1
      else if 0x4C1 \<le> c \<and> c \<le> 0x4CE \<and> odd c then c + 1
      else if c = 0x4C0 then 0x4CF
      else c)"

definition cyrillic_tables :: unicode_tables where
  "cyrillic_tables =
     \<lparr>ToTitleFull = (\<lambda>c. [cyrillic_title c]),
      lower_ucs4 = (\<lambda>s i. [cyrillic_lower (s ! i)])\<rparr>"

text \<open>
  An engine that settles an utterance after every chunk: the first one is
  \<open>hello World\<close>, every later one is a no-break space and an em space, and the final
  result is empty. Only the English model is installed under \<open>/app\<close>. The decoder
  passes the frames of a WAV file on and turns any other file into 4001 frames, so that
  the loop reads two chunks of it.
\<close>

definition demo_env :: "(string, nat, frame list) env" where
  "demo_env =
     \<lparr>VOSK_AVAILABLE = True, PYDUB_AVAILABLE = True, BASE_DIR = ''/app'',
      Model = (\<lambda>files p. Inr p),
      KaldiRecognizer = (\<lambda>m rate. Inr 0),
      AcceptWaveform = (\<lambda>r data. Inr (True, Suc r)),
      Result = (\<lambda>r. Inr ([''text'' \<mapsto> (if r = 1 then ustr ''hello World'' else [0xA0, 0x2003])], r)),
      FinalResult = (\<lambda>r. Inr ([''text'' \<mapsto> []], r)),
      from_file = (\<lambda>files p. case files p of
                                 Some (File (Some frames)) \<Rightarrow> Inr frames
                               | Some (File None) \<Rightarrow> Inr (replicate 4001 0)
                               | _ \<Rightarrow> Inl ''cannot decode''),
      NamedTemporaryFile = (\<lambda>files. Inr ''/tmp/tmp1.wav''),
      export = (\<lambda>audio. Inr audio),
      unlink_error = (\<lambda>p. None),
      tables = cyrillic_tables\<rparr>"

text \<open>The same deployment with model files that the engine cannot load.\<close>

definition broken_env :: "(string, nat, frame list) env" where
  "broken_env = demo_env\<lparr>Model := (\<lambda>files p. Inl ''model files are corrupt'')\<rparr>"

definition demo_state :: "string state" where
  "demo_state =
     \<lparr>fs = [''/upload/a.mp3'' \<mapsto> File None,
             ''/upload/empty.wav'' \<mapsto> File (Some []),
             ''/app/models/vosk-model-small-en-us-0.15'' \<mapsto> Dir],
      model_cache = Map.empty\<rparr>"

text \<open>The English model is in the cache, and its directory is gone from the disk.\<close>

definition cached_state :: "string state" where
  "cached_state =
     \<lparr>fs = [''/upload/a.mp3'' \<mapsto> File None],
      model_cache = [''en'' \<mapsto> ''loaded-en'']\<rparr>"

section \<open>Properties\<close>

text \<open>Unfolding sets for running the pipeline on the concrete deployment.\<close>

lemmas pipeline_defs =
  transcribe_audio_def convert_audio_to_wav_def get_recognizer_def get_model_def
  MODEL_PATHS_def vosk_lang_def lang_map_def process_audio_def cleanup_def feed_step_def
  feed_loop.simps finalize_def get_text_def failure_def success_def Let_def

lemmas text_defs =
  ustr_def strip_def isspace_def whitespace_def postProcess_def endswith_def
  totitle_def tolower_def

lemmas demo_defs =
  demo_env_def broken_env_def demo_state_def cached_state_def cyrillic_tables_def
  cyrillic_title_def cyrillic_lower_def


subsection \<open>Language resolution\<close>

lemma vosk_lang_known:
  "vosk_lang ''en'' = ''en''" "vosk_lang ''ru'' = ''ru''"
  "vosk_lang ''kz'' = ''kz''" "vosk_lang ''auto'' = ''en''"
  by (simp_all add: vosk_lang_def lang_map_def)

lemma vosk_lang_unknown:
  assumes "language \<noteq> ''en''" "language \<noteq> ''ru''" "language \<noteq> ''kz''" "language \<noteq> ''auto''"
  shows "vosk_lang language = ''en''"
  using assms by (simp add: vosk_lang_def lang_map_def)

lemma vosk_lang_range: "vosk_lang language \<in> {''en'', ''ru'', ''kz''}"
proof -
  consider "language = ''en''" | "language = ''ru''" | "language = ''kz''"
    | "language = ''auto''"
    | "language \<noteq> ''en''" "language \<noteq> ''ru''" "language \<noteq> ''kz''" "language \<noteq> ''auto''"
    by blast
  then show ?thesis
    by cases (simp_all add: vosk_lang_known vosk_lang_unknown)
qed

text \<open>
  C6. A request for \<open>auto\<close> is resolved to \<open>en\<close>, and from the same files, cache and
  engine the call returns what the explicit request for \<open>en\<close> returns: the same
  result, hence the same text, and the same state afterwards.
\<close>

theorem auto_is_en:
  "vosk_lang ''auto'' = ''en'' \<and>
   transcribe_audio env st file_path ''auto'' = transcribe_audio env st file_path ''en''"
  unfolding transcribe_audio_def vosk_lang_known by simp

text \<open>
  C3, as the code has it. A language code outside \<open>en\<close>, \<open>ru\<close>, \<open>kz\<close> and \<open>auto\<close> is
  not rejected: \<open>lang_map.get(language, "en")\<close> resolves it to \<open>en\<close>, and the call
  returns exactly what the request for \<open>en\<close> returns.
\<close>

theorem unknown_language_is_en:
  assumes "language \<notin> {''en'', ''ru'', ''kz'', ''auto''}"
  shows "transcribe_audio env st file_path language = transcribe_audio env st file_path ''en''"
proof -
  from assms have resolved: "vosk_lang language = ''en''"
    by (intro vosk_lang_unknown) auto
  show ?thesis
    unfolding transcribe_audio_def resolved vosk_lang_known by (rule refl)
qed

theorem unknown_language_is_en_witness:
  "''xx'' \<notin> {''en'', ''ru'', ''kz'', ''auto''} \<and>
   transcribe_audio demo_env demo_state ''/upload/a.mp3'' ''xx'' =
   transcribe_audio demo_env demo_state ''/upload/a.mp3'' ''en''"
  using unknown_language_is_en [of "''xx''" demo_env demo_state "''/upload/a.mp3''"] by simp

text \<open>
  C3, as stated, fails: called with the code \<open>xx\<close> on the concrete deployment, the
  core returns a successful result transcribed under \<open>en\<close>, not a failure.
\<close>

theorem unknown_language_transcribed_as_en:
  "''xx'' \<notin> {''en'', ''ru'', ''kz'', ''auto''} \<and>
   fst (transcribe_audio demo_env demo_state ''/upload/a.mp3'' ''xx'') =
     [(''success'', VBool True), (''text'', VText (ustr ''Hello world.'')),
      (''language'', VStr ''en''), (''confidence'', VFloat 0.8)]"
  by (simp add: pipeline_defs text_defs demo_defs)

subsection \<open>The model registry\<close>

text \<open>Looking a model up, and creating a recognizer, leave the files as they are.\<close>

lemma get_model_fs: "fs (snd (get_model env st lang)) = fs st"
  by (simp add: get_model_def split: option.splits sum.splits)

lemma get_recognizer_fs: "fs (snd (get_recognizer env st lang rate)) = fs st"
  using get_model_fs [of env st lang]
  by (auto simp: get_recognizer_def split: prod.splits option.splits sum.splits)

text \<open>
  C4, as the code has it. \<open>get_model\<close> looks in the cache before it looks at the disk.
  It returns no model whenever the language is not cached and its configured location
  (if it has one) does not exist; and when a model for the language is cached and Vosk
  is available, it returns that model whatever the disk holds.
\<close>

theorem get_model_not_found:
  "(model_cache st lang = None \<and> (\<forall>p. MODEL_PATHS env lang = Some p \<longrightarrow> p \<notin> dom (fs st))
      \<longrightarrow> get_model env st lang = (None, st)) \<and>
   (VOSK_AVAILABLE env \<and> model_cache st lang = Some m
      \<longrightarrow> get_model env st lang = (Some m, st))"
  by (auto simp: get_model_def split: option.splits)

theorem get_model_not_found_witness:
  "model_cache demo_state ''kz'' = None \<and>
   MODEL_PATHS demo_env ''kz'' = Some ''/app/models/vosk-model-small-kz-0.15'' \<and>
   ''/app/models/vosk-model-small-kz-0.15'' \<notin> dom (fs demo_state) \<and>
   get_model demo_env demo_state ''kz'' = (None, demo_state) \<and>
   VOSK_AVAILABLE demo_env \<and> model_cache cached_state ''en'' = Some ''loaded-en'' \<and>
   get_model demo_env cached_state ''en'' = (Some ''loaded-en'', cached_state)"
proof -
  have uncached: "model_cache demo_state ''kz'' = None"
    by (simp add: demo_defs)
  have absent: "\<forall>p. MODEL_PATHS demo_env ''kz'' = Some p \<longrightarrow> p \<notin> dom (fs demo_state)"
    by (simp add: MODEL_PATHS_def demo_defs)
  have cached: "VOSK_AVAILABLE demo_env" "model_cache cached_state ''en'' = Some ''loaded-en''"
    by (simp_all add: demo_defs)
  have location: "MODEL_PATHS demo_env ''kz'' = Some ''/app/models/vosk-model-small-kz-0.15''"
    by (simp add: MODEL_PATHS_def demo_defs)
  have gone: "''/app/models/vosk-model-small-kz-0.15'' \<notin> dom (fs demo_state)"
    by (simp add: demo_defs)
  from get_model_not_found [of demo_state "''kz''" demo_env]
       get_model_not_found [of cached_state "''en''" demo_env "''loaded-en''"]
       uncached absent cached location gone
  show ?thesis by simp
qed

text \<open>
  C4, as stated, fails: with the English model in the cache and its directory gone
  from the disk, \<open>get_model\<close> still returns the cached model.
\<close>

theorem cached_model_without_files:
  "MODEL_PATHS demo_env ''en'' = Some ''/app/models/vosk-model-small-en-us-0.15'' \<and>
   ''/app/models/vosk-model-small-en-us-0.15'' \<notin> dom (fs cached_state) \<and>
   get_model demo_env cached_state ''en'' = (Some ''loaded-en'', cached_state)"
  by (simp add: pipeline_defs demo_defs)

subsection \<open>The shape of a result\<close>

lemma transcribe_audio_shape:
  "(\<exists>msg. fst (transcribe_audio env st file_path language) = failure msg) \<or>
   (\<exists>t. fst (transcribe_audio env st file_path language) = success t (vosk_lang language))"
  by (auto simp: transcribe_audio_def Let_def split: prod.splits option.splits sum.splits)

text \<open>
  C5, as the code has it. Every result of \<open>transcribe_audio\<close> has one of two shapes. A
  failure holds \<open>success = False\<close>, an \<open>error\<close> message and an empty \<open>text\<close>, and no
  \<open>language\<close>. A success holds \<open>success = True\<close>, the \<open>text\<close>, the resolved
  \<open>language\<close> and \<open>confidence = 0.8\<close>, and no \<open>error\<close>.
\<close>

theorem result_shapes:
  "(\<exists>msg. fst (transcribe_audio env st file_path language) =
            [(''success'', VBool False), (''error'', VStr msg), (''text'', VText [])]) \<or>
   (\<exists>t. fst (transcribe_audio env st file_path language) =
            [(''success'', VBool True), (''text'', VText t),
             (''language'', VStr (vosk_lang language)), (''confidence'', VFloat 0.8)])"
  using transcribe_audio_shape [of env st file_path language]
  by (simp add: failure_def success_def)

text \<open>
  C5, as stated, fails: when the uploaded file cannot be decoded the result is a
  failure, and it has no \<open>language\<close> entry.
\<close>

theorem failure_without_language:
  "map_of (fst (transcribe_audio demo_env demo_state ''/upload/missing.mp3'' ''en'')) ''success''
     = Some (VBool False) \<and>
   map_of (fst (transcribe_audio demo_env demo_state ''/upload/missing.mp3'' ''en'')) ''language''
     = None"
  by (simp add: pipeline_defs demo_defs)

text \<open>
  C10. A successful result names the language the request was resolved to, which is
  one of \<open>en\<close>, \<open>ru\<close>, \<open>kz\<close> and never the sentinel \<open>auto\<close>, and it carries the
  constant confidence 0.8.
\<close>

theorem success_language_confidence:
  assumes "map_of (fst (transcribe_audio env st file_path language)) ''success'' = Some (VBool True)"
  shows "map_of (fst (transcribe_audio env st file_path language)) ''language''
           = Some (VStr (vosk_lang language)) \<and>
         vosk_lang language \<in> {''en'', ''ru'', ''kz''} \<and>
         vosk_lang language \<noteq> ''auto'' \<and>
         map_of (fst (transcribe_audio env st file_path language)) ''confidence''
           = Some (VFloat 0.8)"
proof -
  from transcribe_audio_shape [of env st file_path language] assms
  obtain t where "fst (transcribe_audio env st file_path language) = success t (vosk_lang language)"
    by (auto simp: failure_def)
  moreover have "vosk_lang language \<noteq> ''auto''"
    using vosk_lang_range [of language] by auto
  ultimately show ?thesis
    using vosk_lang_range [of language] by (simp add: success_def)
qed

theorem success_language_confidence_witness:
  "map_of (fst (transcribe_audio demo_env demo_state ''/upload/a.mp3'' ''auto'')) ''success''
     = Some (VBool True) \<and>
   map_of (fst (transcribe_audio demo_env demo_state ''/upload/a.mp3'' ''auto'')) ''language''
     = Some (VStr ''en'') \<and>
   map_of (fst (transcribe_audio demo_env demo_state ''/upload/a.mp3'' ''auto'')) ''confidence''
     = Some (VFloat 0.8)"
proof -
  have ok: "map_of (fst (transcribe_audio demo_env demo_state ''/upload/a.mp3'' ''auto'')) ''success''
     = Some (VBool True)"
    by (simp add: pipeline_defs text_defs demo_defs)
  from success_language_confidence [OF ok] ok show ?thesis
    by (simp add: vosk_lang_known)
qed

subsection \<open>The temporary WAV file\<close>

text \<open>
  A successful conversion leaves its output on the disk. The \<open>finally\<close> block removes
  it once a recognizer exists (unless \<open>os.unlink\<close> itself raises); when no recognizer
  can be created, the call returns with the file in place.
\<close>

lemma convert_creates_wav:
  assumes "convert_audio_to_wav env st file_path = (Some wav_path, st1)"
  shows "wav_path \<in> dom (fs st1)"
  using assms
  by (auto simp: convert_audio_to_wav_def Let_def split: if_splits sum.splits)

lemma recognizer_failure_keeps_wav:
  assumes "VOSK_AVAILABLE env"
    and conv: "convert_audio_to_wav env st file_path = (Some wav_path, st1)"
    and "wav_path \<noteq> []"
    and recog: "get_recognizer env st1 (vosk_lang language) 16000 = (None, st2)"
  shows "wav_path \<in> dom (fs (snd (transcribe_audio env st file_path language)))"
proof -
  from get_recognizer_fs [of env st1 "vosk_lang language" 16000] recog
  have "fs st2 = fs st1" by simp
  with convert_creates_wav [OF conv] have "wav_path \<in> dom (fs st2)"
    by simp
  with assms show ?thesis
    by (simp add: transcribe_audio_def)
qed

lemma finally_removes_wav:
  assumes "VOSK_AVAILABLE env"
    and conv: "convert_audio_to_wav env st file_path = (Some wav_path, st1)"
    and "wav_path \<noteq> []"
    and recog: "get_recognizer env st1 (vosk_lang language) 16000 = (Some r, st2)"
    and unlink: "unlink_error env wav_path = None"
  shows "wav_path \<notin> dom (fs (snd (transcribe_audio env st file_path language)))"
proof -
  from unlink have gone: "wav_path \<notin> dom (fs (snd (cleanup env st2 wav_path)))"
    and quiet: "fst (cleanup env st2 wav_path) = None"
    by (auto simp: cleanup_def)
  obtain st3 where clean: "cleanup env st2 wav_path = (None, st3)"
    using quiet by (cases "cleanup env st2 wav_path") simp
  with gone have "wav_path \<notin> dom (fs st3)"
    by simp
  with assms clean show ?thesis
    by (simp add: transcribe_audio_def split: sum.splits)
qed

text \<open>
  C1 does not hold of the code. The \<open>finally\<close> block that deletes the file encloses
  only the recognition loop; the return for a missing recognizer comes before it. On
  the concrete deployment the Kazakh model is not installed: the conversion creates
  \<open>/tmp/tmp1.wav\<close>, the call fails for want of the model, and the file is still on
  the disk afterwards.
\<close>

theorem temp_wav_left_behind:
  "''/tmp/tmp1.wav'' \<notin> dom (fs demo_state) \<and>
   convert_audio_to_wav demo_env demo_state ''/upload/a.mp3'' =
     (Some ''/tmp/tmp1.wav'',
      demo_state\<lparr>fs := (fs demo_state)(''/tmp/tmp1.wav'' \<mapsto> File (Some (replicate 4001 0)))\<rparr>) \<and>
   fst (transcribe_audio demo_env demo_state ''/upload/a.mp3'' ''kz'') =
     failure ''Failed to load speech recognition model for kz'' \<and>
   ''/tmp/tmp1.wav'' \<in> dom (fs (snd (transcribe_audio demo_env demo_state ''/upload/a.mp3'' ''kz'')))"
  by (simp add: pipeline_defs demo_defs)

subsection \<open>Collecting the fragments\<close>

lemma feed_step_appends:
  assumes "feed_step env r data acc = Inr (r', acc')"
  shows "acc' = acc \<or> (\<exists>t. acc' = acc @ [t] \<and> strip t \<noteq> [])"
  using assms
  by (auto simp: feed_step_def split: sum.splits prod.splits if_splits)

lemma finalize_appends:
  assumes "finalize env r acc = Inr acc'"
  shows "acc' = acc \<or> (\<exists>t. acc' = acc @ [t] \<and> strip t \<noteq> [])"
  using assms
  by (auto simp: finalize_def split: sum.splits prod.splits if_splits)

lemma feed_loop_nonblank:
  assumes "feed_loop env r wav acc = Inr (r', acc')"
    and "\<forall>t\<in>set acc. strip t \<noteq> []"
  shows "\<forall>t\<in>set acc'. strip t \<noteq> []"
  using assms
proof (induction env r wav acc rule: feed_loop.induct)
  case (1 env r wav acc)
  show ?case
  proof (cases "take 4000 wav = []")
    case True
    with "1.prems" show ?thesis
      by (simp add: feed_loop.simps [of env r wav acc])
  next
    case False
    with "1.prems"(1) obtain r1 acc1 where
      step: "feed_step env r (take 4000 wav) acc = Inr (r1, acc1)" and
      rest: "feed_loop env r1 (drop 4000 wav) acc1 = Inr (r', acc')"
      by (auto simp: feed_loop.simps [of env r wav acc] Let_def split: sum.splits)
    from feed_step_appends [OF step] "1.prems"(2)
    have "\<forall>t\<in>set acc1. strip t \<noteq> []" by auto
    moreover from False have "length (take 4000 wav) \<noteq> 0"
      by simp
    ultimately show ?thesis
      using "1.IH" [OF refl _ step refl rest] by blast
  qed
qed

text \<open>
  C7. A fragment that is empty or all whitespace (every character one that
  \<open>str.strip()\<close> removes) is never collected. A pass of the loop
  body and the finalization each leave \<open>result_text\<close> as it was or append one fragment
  with non-whitespace content; so whenever the recognition finishes without an
  exception, every collected fragment has non-whitespace content.
\<close>

theorem blank_fragments_suppressed:
  "(feed_step env r data acc = Inr (r1, acc1) \<longrightarrow>
      acc1 = acc \<or> (\<exists>t. acc1 = acc @ [t] \<and> strip t \<noteq> [])) \<and>
   (finalize env r' acc = Inr acc2 \<longrightarrow>
      acc2 = acc \<or> (\<exists>t. acc2 = acc @ [t] \<and> strip t \<noteq> [])) \<and>
   (process_audio env files wav_path r0 = Inr result_text \<longrightarrow>
      (\<forall>t\<in>set result_text. strip t \<noteq> []))"
proof (intro conjI impI)
  assume "feed_step env r data acc = Inr (r1, acc1)"
  then show "acc1 = acc \<or> (\<exists>t. acc1 = acc @ [t] \<and> strip t \<noteq> [])"
    by (rule feed_step_appends)
next
  assume "finalize env r' acc = Inr acc2"
  then show "acc2 = acc \<or> (\<exists>t. acc2 = acc @ [t] \<and> strip t \<noteq> [])"
    by (rule finalize_appends)
next
  assume run: "process_audio env files wav_path r0 = Inr result_text"
  then obtain wav r1 mid where
    loop: "feed_loop env r0 wav [] = Inr (r1, mid)" and
    fin: "finalize env r1 mid = Inr result_text"
    by (auto simp: process_audio_def split: option.splits entry.splits sum.splits)
  from feed_loop_nonblank [OF loop] have "\<forall>t\<in>set mid. strip t \<noteq> []"
    by simp
  with finalize_appends [OF fin] show "\<forall>t\<in>set result_text. strip t \<noteq> []"
    by auto
qed

theorem blank_fragments_suppressed_witness:
  "feed_step demo_env 0 [0] [] = Inr (1, [ustr ''hello World'']) \<and>
   Result demo_env 2 = Inr ([''text'' \<mapsto> [0xA0, 0x2003]], 2) \<and>
   strip [0xA0, 0x2003] = [] \<and>
   feed_step demo_env 1 [0] [ustr ''hello World''] = Inr (2, [ustr ''hello World'']) \<and>
   finalize demo_env 2 [ustr ''hello World''] = Inr [ustr ''hello World''] \<and>
   process_audio demo_env [''/tmp/tmp1.wav'' \<mapsto> File (Some (replicate 4001 0))] ''/tmp/tmp1.wav'' 0
     = Inr [ustr ''hello World''] \<and>
   strip (ustr ''hello World'') \<noteq> []"
proof -
  have first: "feed_step demo_env 0 [0] [] = Inr (1, [ustr ''hello World''])"
    by (simp add: pipeline_defs text_defs demo_defs)
  have blank: "Result demo_env 2 = Inr ([''text'' \<mapsto> [0xA0, 0x2003]], 2)"
    "strip [0xA0, 0x2003] = []"
    by (simp_all add: text_defs demo_defs)
  have second: "feed_step demo_env 1 [0] [ustr ''hello World''] = Inr (2, [ustr ''hello World''])"
    by (simp add: pipeline_defs text_defs demo_defs)
  have fin: "finalize demo_env 2 [ustr ''hello World''] = Inr [ustr ''hello World'']"
    by (simp add: pipeline_defs text_defs demo_defs)
  have all: "process_audio demo_env [''/tmp/tmp1.wav'' \<mapsto> File (Some (replicate 4001 0))]
               ''/tmp/tmp1.wav'' 0 = Inr [ustr ''hello World'']"
    by (simp add: pipeline_defs text_defs demo_defs)
  from blank_fragments_suppressed
         [of demo_env 1 "[0]" "[ustr ''hello World'']" 2 "[ustr ''hello World'']" 2
             "[ustr ''hello World'']"
             "[''/tmp/tmp1.wav'' \<mapsto> File (Some (replicate 4001 0))]" "''/tmp/tmp1.wav''" 0
             "[ustr ''hello World'']"]
       first blank second fin all
  show ?thesis by simp
qed

subsection \<open>An empty stream\<close>

lemma feed_loop_empty: "feed_loop env r [] acc = Inr (r, acc)"
  by (simp add: feed_loop.simps [of env r "[]" acc])

lemma postProcess_empty: "postProcess db [] = []"
  by (simp add: postProcess_def)

text \<open>
  C8. Let the conversion have produced a WAV file without frames, so that the first read
  is empty, let the recognizer exist, and let the engine's final result for a recognizer
  that was fed nothing hold no text. Then the loop body never runs, the result is a
  success with empty text and without an \<open>error\<close> entry, and no period is added
  (the post-processor maps the empty string to itself). The deletion of the file is
  assumed not to raise.
\<close>

theorem empty_stream:
  assumes vosk: "VOSK_AVAILABLE env"
    and conv: "convert_audio_to_wav env st file_path = (Some wav_path, st1)"
    and name: "wav_path \<noteq> []"
    and empty: "fs st1 wav_path = Some (File (Some []))"
    and recog: "get_recognizer env st1 (vosk_lang language) 16000 = (Some r, st2)"
    and final: "FinalResult env r = Inr (final_result, r')"
    and blank: "strip (get_text final_result) = []"
    and unlink: "unlink_error env wav_path = None"
  shows "fst (transcribe_audio env st file_path language) =
           [(''success'', VBool True), (''text'', VText []),
            (''language'', VStr (vosk_lang language)), (''confidence'', VFloat 0.8)] \<and>
         map_of (fst (transcribe_audio env st file_path language)) ''error'' = None \<and>
         postProcess (tables env) [] = []"
proof -
  from get_recognizer_fs [of env st1 "vosk_lang language" 16000] recog
  have files: "fs st2 = fs st1" by simp
  have body: "process_audio env (fs st2) wav_path r = Inr []"
    using empty final blank
    by (simp add: process_audio_def files feed_loop_empty finalize_def)
  from unlink have "fst (cleanup env st2 wav_path) = None"
    by (simp add: cleanup_def)
  then obtain st3 where clean: "cleanup env st2 wav_path = (None, st3)"
    by (cases "cleanup env st2 wav_path") simp
  have "fst (transcribe_audio env st file_path language) = success [] (vosk_lang language)"
    using vosk conv name recog body clean
    by (simp add: transcribe_audio_def postProcess_empty strip_def)
  then show ?thesis
    by (simp add: success_def postProcess_empty)
qed


theorem empty_stream_witness:
  "fst (transcribe_audio demo_env demo_state ''/upload/empty.wav'' ''en'') =
     [(''success'', VBool True), (''text'', VText []),
      (''language'', VStr ''en''), (''confidence'', VFloat 0.8)] \<and>
   map_of (fst (transcribe_audio demo_env demo_state ''/upload/empty.wav'' ''en'')) ''error'' = None"
proof -
  let ?st1 = "demo_state\<lparr>fs := (fs demo_state)(''/tmp/tmp1.wav'' \<mapsto> File (Some []))\<rparr>"
  let ?st2 = "?st1\<lparr>model_cache := [''en'' \<mapsto> ''/app/models/vosk-model-small-en-us-0.15'']\<rparr>"
  have vosk: "VOSK_AVAILABLE demo_env"
    by (simp add: demo_defs)
  have conv: "convert_audio_to_wav demo_env demo_state ''/upload/empty.wav''
                = (Some ''/tmp/tmp1.wav'', ?st1)"
    by (simp add: convert_audio_to_wav_def demo_defs)
  have name: "''/tmp/tmp1.wav'' \<noteq> []"
    by simp
  have empty: "fs ?st1 ''/tmp/tmp1.wav'' = Some (File (Some []))"
    by simp
  have recog: "get_recognizer demo_env ?st1 (vosk_lang ''en'') 16000 = (Some 0, ?st2)"
    by (simp add: get_recognizer_def get_model_def MODEL_PATHS_def vosk_lang_known demo_defs)
  have final: "FinalResult demo_env 0 = Inr ([''text'' \<mapsto> []], 0)"
    by (simp add: demo_defs)
  have blank: "strip (get_text [''text'' \<mapsto> []]) = []"
    by (simp add: get_text_def strip_def)
  have unlink: "unlink_error demo_env ''/tmp/tmp1.wav'' = None"
    by (simp add: demo_defs)
  from empty_stream [OF vosk conv name empty recog final blank unlink]
  show ?thesis by (simp add: vosk_lang_known)
qed

subsection \<open>The text post-processor\<close>













subsection \<open>Callers of the registry that overlap\<close>

text \<open>
  The two steps, taken in a row by a single caller, are \<open>get_model\<close>: the same result,
  the same cache and the same files.
\<close>

lemma two_steps_are_get_model:
  "(\<exists>r. calls (run env lang [0, 0] (enter st 1)) = [Returned r] \<and>
        map_option fst r = fst (get_model env st lang)) \<and>
   (\<lambda>l. map_option fst (cache (run env lang [0, 0] (enter st 1)) l))
     = model_cache (snd (get_model env st lang)) \<and>
   disk (run env lang [0, 0] (enter st 1)) = fs (snd (get_model env st lang))"
proof (intro conjI)
  show "\<exists>r. calls (run env lang [0, 0] (enter st 1)) = [Returned r] \<and>
        map_option fst r = fst (get_model env st lang)"
    by (auto simp: run_def step_def cache_test_def load_store_def enter_def get_model_def Let_def
             split: option.splits sum.splits)
  show "(\<lambda>l. map_option fst (cache (run env lang [0, 0] (enter st 1)) l))
          = model_cache (snd (get_model env st lang))"
    by (auto simp: run_def step_def cache_test_def load_store_def enter_def get_model_def Let_def
                   fun_eq_iff option.map_comp comp_def option.map_ident
             split: option.splits sum.splits)
  show "disk (run env lang [0, 0] (enter st 1)) = fs (snd (get_model env st lang))"
    by (auto simp: run_def step_def cache_test_def load_store_def enter_def get_model_def Let_def
             split: option.splits sum.splits)
qed















end
